theory Spec2Isabelle
  imports Complex_Main
begin

section \<open>A model of the numpy values the buffers and textures receive\<close>

text \<open>
  The classes of \<^verbatim>\<open>vispy/oogl/buffer.py\<close> and \<^verbatim>\<open>vispy/oogl/texture.py\<close> only look at
  a few attributes of a numpy array: its dtype (name, item size, named fields, sub-array
  shape, base type), its shape, its \<^verbatim>\<open>base\<close> object and, in \<^verbatim>\<open>convert_data\<close>, its
  values. Python integers are unbounded and are modelled by \<^typ>\<open>int\<close> and \<^typ>\<open>nat\<close>.
\<close>

datatype error =
    ValueError string
  | TypeError string
  | RuntimeError string
  | KeyError string
  | AssertionError
  | ZeroDivisionError
  | TextureError string

text \<open>
  A dtype is a plain scalar type (name and item size in bytes), a sub-array type such as
  \<^verbatim>\<open>('<f4', 3)\<close> (element type and shape), or a structured type (the fields in
  declaration order, each with its name, dtype and byte offset, and the total item size).
\<close>

datatype dtype =
    Scalar string nat
  | SubArray dtype "nat list"
  | Struct "(string \<times> dtype \<times> nat) list" nat

fun itemsize :: "dtype \<Rightarrow> nat" where
  "itemsize (Scalar nm n) = n"
| "itemsize (SubArray b sh) = prod_list sh * itemsize b"
| "itemsize (Struct fs n) = n"

text \<open>\<^verbatim>\<open>dtype.fields\<close> in a boolean context: true for a structured type with a field.\<close>

fun has_fields :: "dtype \<Rightarrow> bool" where
  "has_fields (Struct fs n) = (fs \<noteq> [])"
| "has_fields d = False"

fun dtype_fields :: "dtype \<Rightarrow> (string \<times> dtype \<times> nat) list" where
  "dtype_fields (Struct fs n) = fs"
| "dtype_fields d = []"

definition dtype_names :: "dtype \<Rightarrow> string list" where
  "dtype_names d = map fst (dtype_fields d)"

text \<open>\<^verbatim>\<open>dtype.base\<close>: the element type of a sub-array type, the type itself otherwise.\<close>

fun dtype_base :: "dtype \<Rightarrow> dtype" where
  "dtype_base (SubArray b sh) = dtype_base b"
| "dtype_base d = d"

text \<open>\<^verbatim>\<open>dtype.shape\<close>: the shape of a sub-array type, the empty tuple otherwise.\<close>

fun dtype_shape :: "dtype \<Rightarrow> nat list" where
  "dtype_shape (SubArray b sh) = sh @ dtype_shape b"
| "dtype_shape d = []"

text \<open>Decimal digits of a natural number, for the names of void types.\<close>

definition digits :: string where
  "digits = ''0123456789''"

definition digit_char :: "nat \<Rightarrow> char" where
  "digit_char n = digits ! (n mod 10)"

function str_nat :: "nat \<Rightarrow> string" where
  "str_nat n = (if n < 10 then [digit_char n] else str_nat (n div 10) @ [digit_char (n mod 10)])"
  by pat_completeness auto
termination
  by (relation "measure id") auto

declare str_nat.simps [simp del]

text \<open>\<^verbatim>\<open>dtype.name\<close>: structured and sub-array types are void types named by their bit width.\<close>

fun dtype_name :: "dtype \<Rightarrow> string" where
  "dtype_name (Scalar nm n) = nm"
| "dtype_name d = ''void'' @ str_nat (8 * itemsize d)"

text \<open>\<^verbatim>\<open>dtype[name]\<close> and \<^verbatim>\<open>dtype.fields[name]\<close>: the field's dtype and byte offset.\<close>

definition getfield :: "dtype \<Rightarrow> string \<Rightarrow> error + (dtype \<times> nat)" where
  "getfield d key =
     (case map_of (dtype_fields d) key of
        None \<Rightarrow> Inl (KeyError key)
      | Some f \<Rightarrow> Inr f)"

text \<open>
  An array: dtype, shape, values and the \<^verbatim>\<open>base\<close> attribute, which is \<^verbatim>\<open>None\<close> for an
  array that owns its memory and the owning array for a view. Only \<^verbatim>\<open>convert_data\<close> reads
  the values (as exact rationals); the buffers and the texture setters treat them as
  opaque, and the arrays given to them below list no values.
\<close>

datatype ndarray =
  NDArray (adtype: dtype) (shape: "nat list") (vals: "rat list") (base: "ndarray option")

definition asize :: "ndarray \<Rightarrow> nat" where
  "asize a = prod_list (shape a)"

definition ndim :: "ndarray \<Rightarrow> nat" where
  "ndim a = length (shape a)"

definition array_nbytes :: "ndarray \<Rightarrow> int" where
  "array_nbytes a = int (asize a * itemsize (adtype a))"

text \<open>
  \<^verbatim>\<open>data[name]\<close> on a structured array: a view on the field. A sub-array field adds its
  shape to the array's; the base of the view is the array that owns the memory.
\<close>

definition field_view :: "ndarray \<Rightarrow> dtype \<Rightarrow> ndarray" where
  "field_view a t =
     NDArray (dtype_base t) (shape a @ dtype_shape t) (vals a)
       (Some (case base a of None \<Rightarrow> a | Some b \<Rightarrow> b))"

lemma size_dtype_base: "size (dtype_base t) \<le> size t"
  by (induction t rule: dtype_base.induct) auto

text \<open>
  \<^verbatim>\<open>while data.dtype.fields and len(data.dtype.fields) == 1: data = data[data.dtype.names[0]]\<close>
\<close>

function unwrap_array :: "ndarray \<Rightarrow> ndarray" where
  "unwrap_array a =
     (case adtype a of
        Struct [(nm, t, off)] n \<Rightarrow> unwrap_array (field_view a t)
      | _ \<Rightarrow> a)"
  by pat_completeness auto
termination
proof (relation "measure (\<lambda>a. size (adtype a))", goal_cases)
  case 1
  show ?case by simp
next
  case (2 a fs n f fs' nm p t off)
  then have "size t < size (adtype a)" by auto
  moreover have "size (dtype_base t) \<le> size t" by (rule size_dtype_base)
  ultimately show ?case by (simp add: field_view_def)
qed

declare unwrap_array.simps [simp del]

text \<open>
  \<^verbatim>\<open>while dtype.fields and len(dtype.fields) == 1: dtype = dtype[dtype.names[0]]\<close>
\<close>

fun unwrap_dtype :: "dtype \<Rightarrow> dtype" where
  "unwrap_dtype (Struct [(nm, t, off)] n) = unwrap_dtype t"
| "unwrap_dtype d = d"


section \<open>Buffers (\<^verbatim>\<open>vispy/oogl/buffer.py\<close>)\<close>

datatype buftarget = GL_ARRAY_BUFFER | GL_ELEMENT_ARRAY_BUFFER

text \<open>The concrete classes; \<^verbatim>\<open>self.__class__.__name__\<close> is \<open>class_name\<close>.\<close>

datatype bufclass = ElementBuffer | VertexBuffer | VertexBufferView

fun class_name :: "bufclass \<Rightarrow> string" where
  "class_name ElementBuffer = ''ElementBuffer''"
| "class_name VertexBuffer = ''VertexBuffer''"
| "class_name VertexBufferView = ''VertexBufferView''"

text \<open>The target each class passes to \<^verbatim>\<open>DataBuffer.__init__\<close>.\<close>

fun class_target :: "bufclass \<Rightarrow> buftarget" where
  "class_target ElementBuffer = GL_ELEMENT_ARRAY_BUFFER"
| "class_target c = GL_ARRAY_BUFFER"

text \<open>
  The keys of the class attribute \<^verbatim>\<open>DTYPE2GTYPE\<close>; \<^verbatim>\<open>VertexBufferView\<close> inherits the
  table of \<^verbatim>\<open>VertexBuffer\<close>.
\<close>

fun DTYPE2GTYPE :: "bufclass \<Rightarrow> string list" where
  "DTYPE2GTYPE ElementBuffer = [''uint8'', ''uint16'', ''uint32'']"
| "DTYPE2GTYPE c = [''int8'', ''uint8'', ''uint16'', ''int16'', ''float32'', ''float16'']"

text \<open>
  The attributes of a buffer object. \<open>handle\<close> and \<open>need_update\<close> are the attributes
  \<^verbatim>\<open>_handle\<close> and \<^verbatim>\<open>_need_update\<close> that the base class \<^verbatim>\<open>GLObject\<close> keeps; the usage
  is always \<^verbatim>\<open>GL_DYNAMIC_DRAW\<close> and is left out. An entry of \<open>pending_data\<close> is
  \<^verbatim>\<open>(data, nbytes, offset)\<close>.
\<close>

record buffer =
  cls :: bufclass
  target :: buftarget
  handle :: nat
  need_update :: bool
  nbytes :: int
  need_resize :: bool
  pending_data :: "(ndarray \<times> int \<times> int) list"
  offset :: int
  dtype :: dtype
  vsize :: int
  stride :: int
  count :: int

subsection \<open>Class \<^verbatim>\<open>Buffer\<close>\<close>

definition set_nbytes :: "'a buffer_scheme \<Rightarrow> int \<Rightarrow> 'a buffer_scheme" where
  "set_nbytes b n =
     (let b1 = (if nbytes b \<noteq> n then b\<lparr>nbytes := n, need_resize := True\<rparr> else b)
      in b1\<lparr>pending_data := []\<rparr>)"

text \<open>
  \<^verbatim>\<open>Buffer.set_data\<close> and \<^verbatim>\<open>Buffer.set_subdata\<close>. The argument is an array by its type,
  so the \<^verbatim>\<open>isinstance\<close> checks have no failing branch here.
\<close>

definition Buffer_set_data :: "'a buffer_scheme \<Rightarrow> ndarray \<Rightarrow> 'a buffer_scheme" where
  "Buffer_set_data b data =
     (let b1 = set_nbytes b (array_nbytes data)
      in b1\<lparr>pending_data := pending_data b1 @ [(data, array_nbytes data, 0)],
             need_update := True\<rparr>)"

definition Buffer_set_subdata ::
  "'a buffer_scheme \<Rightarrow> int \<Rightarrow> ndarray \<Rightarrow> error + 'a buffer_scheme" where
  "Buffer_set_subdata b off data =
     (if nbytes b = 0
      then Inl (ValueError ''Cannot set subdata if there is no space allocated.'')
      else if off + array_nbytes data > nbytes b
      then Inl (ValueError ''Offseted data is too big for buffer.'')
      else Inr (b\<lparr>pending_data := pending_data b @ [(data, array_nbytes data, off)],
                  need_update := True\<rparr>))"

text \<open>The calls \<^verbatim>\<open>_update\<close> makes on the graphics library, in order.\<close>

datatype glcall =
    glBindBuffer buftarget nat
  | glBufferData buftarget int
  | glBufferSubData buftarget int int ndarray

text \<open>
  \<^verbatim>\<open>while self._pending_data: data, nbytes, offset = self._pending_data.pop(0); ...\<close>
  returns the queue it leaves and the calls made so far.
\<close>

fun upload_pending ::
  "buftarget \<Rightarrow> (ndarray \<times> int \<times> int) list \<Rightarrow> glcall list
     \<Rightarrow> (ndarray \<times> int \<times> int) list \<times> glcall list" where
  "upload_pending tg [] calls = ([], calls)"
| "upload_pending tg ((data, n, off) # q) calls =
     upload_pending tg q (calls @ [glBufferSubData tg off n data])"

definition Buffer_update :: "'a buffer_scheme \<Rightarrow> 'a buffer_scheme \<times> glcall list" where
  "Buffer_update b =
     (let calls1 = [glBindBuffer (target b) (handle b)];
          (b1, calls2) =
            (if need_resize b
             then (b\<lparr>need_resize := False\<rparr>, calls1 @ [glBufferData (target b) (nbytes b)])
             else (b, calls1));
          (q, calls3) = upload_pending (target b1) (pending_data b1) calls2
      in (b1\<lparr>pending_data := q\<rparr>, calls3))"

subsection \<open>Type inference: \<^verbatim>\<open>_parse_dtype\<close> and \<^verbatim>\<open>_parse_array\<close>\<close>

definition ElementBuffer_parse_dtype :: "dtype \<Rightarrow> error + (dtype \<times> int \<times> int)" where
  "ElementBuffer_parse_dtype d =
     (if has_fields d
      then Inl (ValueError ''ElementBuffer does not support structured dtype.'')
      else Inr (dtype_base d, 1, int (itemsize d)))"

definition ElementBuffer_parse_array :: "ndarray \<Rightarrow> error + (dtype \<times> int \<times> int \<times> int)" where
  "ElementBuffer_parse_array data =
     (if has_fields (adtype data)
      then Inl (ValueError ''ElementBuffer does not support structured arrays.'')
      else (case ElementBuffer_parse_dtype (adtype data) of
              Inl e \<Rightarrow> Inl e
            | Inr (dt, vs, st) \<Rightarrow> Inr (dt, vs, st, int (asize data))))"

text \<open>
  \<^verbatim>\<open>VertexBuffer._parse_dtype\<close>. For a structured type the vector size is the sum over
  the fields of \<^verbatim>\<open>int(np.prod(dtype[name].shape))\<close>; the product of the empty shape is 1.
\<close>

definition VertexBuffer_parse_dtype :: "dtype \<Rightarrow> dtype \<times> int \<times> int" where
  "VertexBuffer_parse_dtype d0 =
     (let d = unwrap_dtype d0;
          dtype_' = dtype_base d;
          stride' = int (itemsize d);
          vsize' =
            (if has_fields d
             then int (sum_list (map (\<lambda>(nm, t, off). prod_list (dtype_shape t)) (dtype_fields d)))
             else if dtype_shape d \<noteq> [] then int (prod_list (dtype_shape d))
             else 1)
      in (dtype_', vsize', stride'))"

text \<open>
  \<^verbatim>\<open>VertexBuffer._parse_array\<close>. The test \<^verbatim>\<open>data.base is not data\<close> compares the array
  with its own \<^verbatim>\<open>base\<close> attribute, which is \<^verbatim>\<open>None\<close> or the array owning the memory.
\<close>

definition VertexBuffer_parse_array :: "ndarray \<Rightarrow> dtype \<times> int \<times> int \<times> int" where
  "VertexBuffer_parse_array data0 =
     (let data = unwrap_array data0;
          (dt, vs0, st0) = VertexBuffer_parse_dtype (adtype data);
          (vs, cnt) =
            (if has_fields dt then (vs0, int (asize data))
             else if ndim data \<le> 1 then (1, int (asize data))
             else (int (last (shape data)), int (prod_list (butlast (shape data)))));
          st = (if base data \<noteq> Some data then int (itemsize dt) * vs else st0)
      in (dt, vs, st, cnt))"

text \<open>Dispatch on the class of \<^verbatim>\<open>self\<close>.\<close>

fun parse_dtype :: "bufclass \<Rightarrow> dtype \<Rightarrow> error + (dtype \<times> int \<times> int)" where
  "parse_dtype ElementBuffer d = ElementBuffer_parse_dtype d"
| "parse_dtype c d = Inr (VertexBuffer_parse_dtype d)"

fun parse_array :: "bufclass \<Rightarrow> ndarray \<Rightarrow> error + (dtype \<times> int \<times> int \<times> int)" where
  "parse_array ElementBuffer data = ElementBuffer_parse_array data"
| "parse_array c data = Inr (VertexBuffer_parse_array data)"

subsection \<open>Class \<^verbatim>\<open>DataBuffer\<close>\<close>

definition set_count :: "'a buffer_scheme \<Rightarrow> int \<Rightarrow> 'a buffer_scheme" where
  "set_count b n = (let b1 = b\<lparr>count := n\<rparr> in set_nbytes b1 (count b1 * stride b1))"

text \<open>
  \<^verbatim>\<open>DataBuffer.set_data\<close> and \<^verbatim>\<open>DataBuffer.set_subdata\<close> for the classes whose
  \<^verbatim>\<open>dtype\<close>, \<^verbatim>\<open>vsize\<close>, \<^verbatim>\<open>stride\<close> and \<^verbatim>\<open>count\<close> properties return the object's own
  attributes (all but \<^verbatim>\<open>VertexBufferView\<close>, see below). An exception leaves the object
  as it was: every check comes before the first assignment.
\<close>

definition set_data :: "buffer \<Rightarrow> ndarray \<Rightarrow> error + buffer" where
  "set_data b data0 =
     (let data = unwrap_array data0 in
      case parse_array (cls b) data of
        Inl e \<Rightarrow> Inl e
      | Inr (dt, vs, st, cnt) \<Rightarrow>
          if dt \<noteq> dtype b then Inl (ValueError ''Given data must match dtype of the buffer.'')
          else if vs \<noteq> vsize b then Inl (ValueError ''Given data must match vsize of the buffer.'')
          else if st \<noteq> stride b then Inl (ValueError ''Given data must match stride of the buffer.'')
          else Inr (Buffer_set_data (set_count b cnt) data))"

definition set_subdata :: "buffer \<Rightarrow> int \<Rightarrow> ndarray \<Rightarrow> error + buffer" where
  "set_subdata b off data0 =
     (let data = unwrap_array data0 in
      case parse_array (cls b) data of
        Inl e \<Rightarrow> Inl e
      | Inr (dt, vs, st, cnt) \<Rightarrow>
          if dt \<noteq> dtype b then Inl (ValueError ''Given data must match dtype of the buffer.'')
          else if vs \<noteq> vsize b then Inl (ValueError ''Given data must match vsize of the buffer.'')
          else if st \<noteq> stride b then Inl (ValueError ''Given data must match stride of the buffer.'')
          else if off < 0 then Inl (ValueError ''Offset in set_subdata should be >= 0.'')
          else if off + cnt > count b
          then Inl (ValueError ''Offset + data does not fit in this buffer.'')
          else Buffer_set_subdata b (off * stride b) data)"

text \<open>
  The constructor argument, after \<^verbatim>\<open>np.dtype\<close> has turned a string or a tuple into a
  dtype: an array, a dtype, or anything else.
\<close>

datatype init_arg = ArgArray ndarray | ArgDtype dtype | ArgOther

text \<open>
  Modelled from the spec: the initial values of \<open>handle\<close> and \<open>need_update\<close>, which
  \<^verbatim>\<open>GLObject.__init__\<close> sets outside these files (a resource is created without a
  handle, 0 standing for ``uncreated''). The other attributes are as \<^verbatim>\<open>Buffer.__init__\<close>
  and \<^verbatim>\<open>DataBuffer.__init__\<close> assign them, with the parsed dtype, vector size, stride
  and count.
\<close>

definition new_buffer :: "bufclass \<Rightarrow> dtype \<Rightarrow> int \<Rightarrow> int \<Rightarrow> int \<Rightarrow> buffer" where
  "new_buffer c dt vs st cnt =
     \<lparr>cls = c, target = class_target c, handle = 0, need_update = False, nbytes = 0,
      need_resize = False, pending_data = [], offset = 0,
      dtype = dt, vsize = vs, stride = st, count = cnt\<rparr>"

definition not_allowed :: "bufclass \<Rightarrow> string \<Rightarrow> error" where
  "not_allowed c nm = TypeError (''Data type not allowed for '' @ class_name c @ '': '' @ nm)"

text \<open>
  \<^verbatim>\<open>for name in self.dtype.names: dtype = self.dtype[name].base; if dtype.name not in ...\<close>
\<close>

fun check_fields :: "bufclass \<Rightarrow> (string \<times> dtype \<times> nat) list \<Rightarrow> error option" where
  "check_fields c [] = None"
| "check_fields c ((nm, t, off) # fs) =
     (if dtype_name (dtype_base t) \<notin> set (DTYPE2GTYPE c)
      then Some (not_allowed c (dtype_name (dtype_base t)))
      else check_fields c fs)"

definition check_data_type :: "bufclass \<Rightarrow> dtype \<Rightarrow> error option" where
  "check_data_type c dt =
     (if has_fields dt then check_fields c (dtype_fields dt)
      else if dtype_name dt \<notin> set (DTYPE2GTYPE c) then Some (not_allowed c (dtype_name dt))
      else None)"

definition DataBuffer_init :: "bufclass \<Rightarrow> init_arg \<Rightarrow> error + buffer" where
  "DataBuffer_init c arg =
     (case
        (case arg of
           ArgArray data \<Rightarrow>
             (case parse_array c data of
                Inl e \<Rightarrow> Inl e
              | Inr (dt, vs, st, cnt) \<Rightarrow> set_data (new_buffer c dt vs st cnt) data)
         | ArgDtype d \<Rightarrow>
             (case parse_dtype c d of
                Inl e \<Rightarrow> Inl e
              | Inr (dt, vs, st) \<Rightarrow> Inr (new_buffer c dt vs st 0))
         | ArgOther \<Rightarrow> Inl (ValueError ''DataBuffer needs array of dtype to initialize.''))
      of
        Inl e \<Rightarrow> Inl e
      | Inr b \<Rightarrow> (case check_data_type (cls b) (dtype b) of Some e \<Rightarrow> Inl e | None \<Rightarrow> Inr b))"

text \<open>The sub-range uploads among the calls of a flush: (offset, nbytes, data).\<close>

fun uploads :: "glcall list \<Rightarrow> (int \<times> int \<times> ndarray) list" where
  "uploads [] = []"
| "uploads (glBufferSubData tg off n data # cs) = (off, n, data) # uploads cs"
| "uploads (c # cs) = uploads cs"


subsection \<open>Class \<^verbatim>\<open>VertexBufferView\<close>\<close>

text \<open>
  A view keeps a reference to its base buffer. Buffers live in a store, addressed by
  natural numbers, so that a change of the base is seen through the reference; the view
  itself is a buffer object with one more attribute, \<^verbatim>\<open>_base\<close>.
\<close>

type_synonym heap = "nat \<Rightarrow> buffer"

record view = buffer +
  base_ref :: nat

text \<open>
  \<^verbatim>\<open>VertexBufferView.__init__(dtype, base, offset)\<close>: the constructor of \<^verbatim>\<open>VertexBuffer\<close>
  on the dtype, then \<^verbatim>\<open>_base\<close>, \<^verbatim>\<open>_offset\<close> and \<^verbatim>\<open>_stride\<close>.
\<close>

definition VertexBufferView_init :: "heap \<Rightarrow> dtype \<Rightarrow> nat \<Rightarrow> nat \<Rightarrow> error + view" where
  "VertexBufferView_init h dt a off =
     (case DataBuffer_init VertexBufferView (ArgDtype dt) of
        Inl e \<Rightarrow> Inl e
      | Inr b \<Rightarrow>
          Inr ((buffer.extend b (view.fields a))\<lparr>offset := int off, stride := stride (h a)\<rparr>))"

text \<open>\<^verbatim>\<open>DataBuffer.__getitem__\<close> on the buffer stored at address \<open>a\<close>.\<close>

datatype key = Name string | OtherKey

definition getitem :: "heap \<Rightarrow> nat \<Rightarrow> key \<Rightarrow> error + view" where
  "getitem h a k =
     (case k of
        OtherKey \<Rightarrow> Inl (ValueError ''Can only get access to a named field'')
      | Name nm \<Rightarrow>
          (case getfield (dtype (h a)) nm of
             Inl e \<Rightarrow> Inl e
           | Inr (dt, off) \<Rightarrow> VertexBufferView_init h dt a off))"

text \<open>
  The properties \<^verbatim>\<open>handle\<close>, \<^verbatim>\<open>stride\<close> and \<^verbatim>\<open>count\<close> of a view: each copies the
  attribute of the base into the view and returns it.
\<close>

definition view_handle :: "heap \<Rightarrow> view \<Rightarrow> nat \<times> view" where
  "view_handle h v = (let v1 = v\<lparr>handle := handle (h (base_ref v))\<rparr> in (handle v1, v1))"

definition view_stride :: "heap \<Rightarrow> view \<Rightarrow> int \<times> view" where
  "view_stride h v = (let v1 = v\<lparr>stride := stride (h (base_ref v))\<rparr> in (stride v1, v1))"

definition view_count :: "heap \<Rightarrow> view \<Rightarrow> int \<times> view" where
  "view_count h v = (let v1 = v\<lparr>count := count (h (base_ref v))\<rparr> in (count v1, v1))"

text \<open>
  \<^verbatim>\<open>VertexBufferView.set_count(self)\<close> takes no argument and raises; called with
  arguments, as \<^verbatim>\<open>DataBuffer.set_data\<close> does, the call itself raises Python's TypeError
  for the wrong number of arguments. The list holds the arguments of the call.
\<close>

definition VertexBufferView_set_count :: "view \<Rightarrow> int list \<Rightarrow> error + view" where
  "VertexBufferView_set_count v args =
     (if args = [] then Inl (RuntimeError ''Cannot set count on a VertexBufferView.'')
      else Inl (TypeError ''set_count() takes 1 positional argument but 2 were given''))"

text \<open>
  \<^verbatim>\<open>set_data\<close> and \<^verbatim>\<open>set_subdata\<close> of a view are the methods inherited from
  \<^verbatim>\<open>DataBuffer\<close>, with \<^verbatim>\<open>self.stride\<close>, \<^verbatim>\<open>self.count\<close> and \<^verbatim>\<open>self.set_count\<close> resolved
  to the overrides of the view.
\<close>

definition view_set_data :: "heap \<Rightarrow> view \<Rightarrow> ndarray \<Rightarrow> error + view" where
  "view_set_data h v data0 =
     (let data = unwrap_array data0;
          (dt, vs, st, cnt) = VertexBuffer_parse_array data
      in if dt \<noteq> dtype v then Inl (ValueError ''Given data must match dtype of the buffer.'')
         else if vs \<noteq> vsize v then Inl (ValueError ''Given data must match vsize of the buffer.'')
         else let (st', v1) = view_stride h v in
           if st \<noteq> st' then Inl (ValueError ''Given data must match stride of the buffer.'')
           else (case VertexBufferView_set_count v1 [cnt] of
                   Inl e \<Rightarrow> Inl e
                 | Inr v2 \<Rightarrow> Inr (Buffer_set_data v2 data)))"

definition view_set_subdata :: "heap \<Rightarrow> view \<Rightarrow> int \<Rightarrow> ndarray \<Rightarrow> error + view" where
  "view_set_subdata h v off data0 =
     (let data = unwrap_array data0;
          (dt, vs, st, cnt) = VertexBuffer_parse_array data
      in if dt \<noteq> dtype v then Inl (ValueError ''Given data must match dtype of the buffer.'')
         else if vs \<noteq> vsize v then Inl (ValueError ''Given data must match vsize of the buffer.'')
         else let (st', v1) = view_stride h v in
           if st \<noteq> st' then Inl (ValueError ''Given data must match stride of the buffer.'')
           else if off < 0 then Inl (ValueError ''Offset in set_subdata should be >= 0.'')
           else let (cnt', v2) = view_count h v1 in
             if off + cnt > cnt'
             then Inl (ValueError ''Offset + data does not fit in this buffer.'')
             else Buffer_set_subdata v2 (off * stride v2) data)"


section \<open>Textures (\<^verbatim>\<open>vispy/oogl/texture.py\<close>)\<close>

datatype textarget = GL_TEXTURE_2D | GL_TEXTURE_3D

text \<open>
  The value of a \<^verbatim>\<open>format\<close> argument: one of the five formats the setters accept, or
  any other enum value.
\<close>

datatype glenum =
    GL_ALPHA | GL_RGB | GL_RGBA | GL_LUMINANCE | GL_LUMINANCE_ALPHA | GL_other nat

text \<open>
  A pending write is the tuple \<^verbatim>\<open>(data, offset, level, format, clim)\<close>; the data is an
  array or, for \<^verbatim>\<open>set_storage\<close>, a shape.
\<close>

datatype payload = Data ndarray | Storage "int list"

type_synonym pending =
  "payload \<times> int list option \<times> int \<times> glenum option \<times> rat list option"

text \<open>
  The attributes of a texture that the setters and the flush of the data queues use.
  The two dictionaries of filter and wrapping parameters are left out: no function
  modelled here reads them. The constructor accepts only the two targets of
  \<^typ>\<open>textarget\<close>.
\<close>

record texture =
  tex_target :: textarget
  tex_need_update :: bool
  tex_pending_data :: "pending option"
  texture_shape :: "int list option"
  pending_subdata :: "pending list"

text \<open>\<^verbatim>\<open>Texture.__init__(target)\<close> without data.\<close>

definition new_texture :: "textarget \<Rightarrow> texture" where
  "new_texture tg =
     \<lparr>tex_target = tg, tex_need_update = True, tex_pending_data = None,
      texture_shape = None, pending_subdata = []\<rparr>"

text \<open>\<^verbatim>\<open>MAP.get(self._target, 0)\<close>\<close>

fun target_ndim :: "textarget \<Rightarrow> nat" where
  "target_ndim GL_TEXTURE_2D = 2"
| "target_ndim GL_TEXTURE_3D = 3"

definition format_ok :: "glenum option \<Rightarrow> bool" where
  "format_ok f = (f \<in> {None, Some GL_RGB, Some GL_RGBA, Some GL_LUMINANCE,
                        Some GL_LUMINANCE_ALPHA, Some GL_ALPHA})"

definition clim_ok :: "rat list option \<Rightarrow> bool" where
  "clim_ok c = (case c of None \<Rightarrow> True | Some l \<Rightarrow> length l = 2)"

definition Texture_set_subdata ::
  "texture \<Rightarrow> int list \<Rightarrow> ndarray \<Rightarrow> int \<Rightarrow> glenum option \<Rightarrow> rat list option
     \<Rightarrow> error + texture" where
  "Texture_set_subdata t off data level format clim =
     (if texture_shape t = None
      then Inl (RuntimeError ''Cannot set subdata if there is not data or storage yet.'')
      else let nd = target_ndim (tex_target t) in
        if \<not> (length (shape data) = nd \<or> length (shape data) = nd + 1) then Inl AssertionError
        else if length off \<noteq> nd then Inl AssertionError
        else if \<not> level \<ge> 0 then Inl AssertionError
        else if \<not> format_ok format then Inl AssertionError
        else if \<not> clim_ok clim then Inl AssertionError
        else Inr (t\<lparr>pending_subdata := pending_subdata t @ [(Data data, Some off, level, format, clim)],
                    tex_need_update := True\<rparr>))"

definition Texture_set_data ::
  "texture \<Rightarrow> ndarray \<Rightarrow> int \<Rightarrow> glenum option \<Rightarrow> rat list option \<Rightarrow> error + texture" where
  "Texture_set_data t data level format clim =
     (let nd = target_ndim (tex_target t) in
      if \<not> (length (shape data) = nd \<or> length (shape data) = nd + 1) then Inl AssertionError
      else if \<not> level \<ge> 0 then Inl AssertionError
      else if \<not> format_ok format then Inl AssertionError
      else if \<not> clim_ok clim then Inl AssertionError
      else Inr (t\<lparr>pending_subdata := [],
                  tex_pending_data := Some (Data data, None, level, format, clim),
                  texture_shape := Some (map int (shape data)),
                  tex_need_update := True\<rparr>))"

definition Texture_set_storage ::
  "texture \<Rightarrow> int list \<Rightarrow> int \<Rightarrow> glenum option \<Rightarrow> error + texture" where
  "Texture_set_storage t shp level format =
     (let nd = target_ndim (tex_target t) in
      if format = None \<and> level = 0 \<and> texture_shape t \<noteq> None
         \<and> take nd (the (texture_shape t)) = take nd shp
      then Inr t
      else if \<not> (length shp = nd \<or> length shp = nd + 1) then Inl AssertionError
      else if \<not> list_all (\<lambda>i. i > 0) shp then Inl AssertionError
      else if \<not> level \<ge> 0 then Inl AssertionError
      else if \<not> format_ok format then Inl AssertionError
      else Inr (t\<lparr>tex_pending_data := Some (Storage shp, None, level, format, None),
                  texture_shape := Some shp,
                  tex_need_update := True\<rparr>))"

text \<open>
  The flush \<^verbatim>\<open>Texture._update\<close>, as far as the two data queues go. What lies outside the
  two files is a parameter: the state \<open>'g\<close> of the graphics library together with the
  handle, validity flag and parameters of the object; the answer of
  \<^verbatim>\<open>ext_available('GL_texture_3D')\<close>; \<^verbatim>\<open>_process_pending_data\<close> as a function of the
  texture attributes it reads, the pending write and that state; \<^verbatim>\<open>gl.glIsTexture\<close> on
  the handle; the reset of the handle on the early return; and the final activation
  with the parameter updates.
\<close>

record 'g gl_env =
  ext_available_3D :: bool
  process_pending_data :: "texture \<Rightarrow> pending \<Rightarrow> 'g \<Rightarrow> error + 'g"
  glIsTexture :: "'g \<Rightarrow> bool"
  reset_handle :: "'g \<Rightarrow> 'g"
  apply_params :: "'g \<Rightarrow> 'g"

text \<open>\<^verbatim>\<open>while self._pending_subdata: pendingData = self._pending_subdata.pop(0); ...\<close>\<close>

fun drain_subdata ::
  "'g gl_env \<Rightarrow> texture \<Rightarrow> pending list \<Rightarrow> 'g \<Rightarrow> error + (pending list \<times> 'g)" where
  "drain_subdata env t [] g = Inr ([], g)"
| "drain_subdata env t (p # q) g =
     (case process_pending_data env (t\<lparr>pending_subdata := q\<rparr>) p g of
        Inl e \<Rightarrow> Inl e
      | Inr g1 \<Rightarrow> drain_subdata env t q g1)"

definition update_subdata :: "'g gl_env \<Rightarrow> texture \<Rightarrow> 'g \<Rightarrow> error + (texture \<times> 'g)" where
  "update_subdata env t g =
     (case drain_subdata env t (pending_subdata t) g of
        Inl e \<Rightarrow> Inl e
      | Inr (q, g1) \<Rightarrow>
          if \<not> glIsTexture env g1
          then Inl (TextureError ''This should not happen (texture is invalid)'')
          else Inr (t\<lparr>pending_subdata := q\<rparr>, apply_params env g1))"

definition Texture_update :: "'g gl_env \<Rightarrow> texture \<Rightarrow> 'g \<Rightarrow> error + (texture \<times> 'g)" where
  "Texture_update env t g =
     (if tex_target t = GL_TEXTURE_3D \<and> \<not> ext_available_3D env
      then Inl (TextureError ''3D Texture not available.'')
      else (case tex_pending_data t of
              None \<Rightarrow> update_subdata env t g
            | Some p \<Rightarrow>
                (let t1 = t\<lparr>tex_pending_data := None\<rparr> in
                 case process_pending_data env t1 p g of
                   Inl e \<Rightarrow> Inl e
                 | Inr g1 \<Rightarrow>
                     if \<not> glIsTexture env g1 then Inr (t1, reset_handle env g1)
                     else update_subdata env t1 g1)))"

subsection \<open>\<^verbatim>\<open>convert_data\<close>\<close>

text \<open>
  The values of an array are exact rationals here: the rounding of 16 and 32 bit floats
  is not modelled, so the statements below say nothing that depends on it.
\<close>

definition uint8 :: dtype where "uint8 = Scalar ''uint8'' 1"
definition float32 :: dtype where "float32 = Scalar ''float32'' 4"

text \<open>\<^verbatim>\<open>data.copy()\<close> and \<^verbatim>\<open>data.astype(np.float32)\<close>: a new array that owns its memory.\<close>

definition copy :: "ndarray \<Rightarrow> ndarray" where
  "copy a = NDArray (adtype a) (shape a) (vals a) None"

definition astype_float32 :: "ndarray \<Rightarrow> ndarray" where
  "astype_float32 a = NDArray float32 (shape a) (vals a) None"

text \<open>
  \<^verbatim>\<open>data.astype(np.uint8)\<close>: the fractional part is dropped and the integer wraps
  modulo 256 (what the C cast does on the usual platforms for the values that occur here,
  from 0 to 256).
\<close>

definition astype_uint8 :: "ndarray \<Rightarrow> ndarray" where
  "astype_uint8 a =
     NDArray uint8 (shape a) (map (\<lambda>x. of_int (\<lfloor>x\<rfloor> mod 256)) (vals a)) None"


text \<open>\<^verbatim>\<open>name.startswith(p)\<close> and \<^verbatim>\<open>p in name\<close>.\<close>

definition startswith :: "string \<Rightarrow> string \<Rightarrow> bool" where
  "startswith s p = (take (length p) s = p)"

fun contains :: "string \<Rightarrow> string \<Rightarrow> bool" where
  "contains [] p = (p = [])"
| "contains (c # s) p = (startswith (c # s) p \<or> contains s p)"

text \<open>
  \<^verbatim>\<open>int(s)\<close> on the tail of a dtype name: a non-empty string of decimal digits, a
  ValueError otherwise.
\<close>

fun position :: "char \<Rightarrow> string \<Rightarrow> nat \<Rightarrow> nat option" where
  "position c [] k = None"
| "position c (x # s) k = (if x = c then Some k else position c s (Suc k))"

definition digit_val :: "char \<Rightarrow> nat option" where
  "digit_val c = position c digits 0"

fun parse_digits :: "string \<Rightarrow> nat \<Rightarrow> nat option" where
  "parse_digits [] acc = Some acc"
| "parse_digits (c # s) acc =
     (case digit_val c of None \<Rightarrow> None | Some d \<Rightarrow> parse_digits s (10 * acc + d))"

definition int_of_str :: "string \<Rightarrow> error + nat" where
  "int_of_str s =
     (if s = [] then Inl (ValueError ''invalid literal for int()'')
      else (case parse_digits s 0 of
              None \<Rightarrow> Inl (ValueError ''invalid literal for int()'')
            | Some n \<Rightarrow> Inr n))"

text \<open>
  First part of \<^verbatim>\<open>convert_data\<close>: ``determine clim if not given, copy or make float32
  if necessary''. It returns the array and the contrast limits the rest works with. The
  two booleans are \<^verbatim>\<open>ext_available('texture_float')\<close> and
  \<^verbatim>\<open>ext_available('texture_half_float')\<close>.
\<close>

definition determine_clim ::
  "bool \<Rightarrow> bool \<Rightarrow> ndarray \<Rightarrow> rat list option \<Rightarrow> error + (ndarray \<times> rat list option)" where
  "determine_clim FLOAT32_SUPPORT FLOAT16_SUPPORT data clim =
     (let name = dtype_name (adtype data) in
      if name = ''bool'' then Inr (astype_uint8 data, None)
      else if name = ''uint8''
      then (if clim \<noteq> None then Inr (astype_float32 data, clim) else Inr (data, clim))
      else if name = ''float16''
      then (if clim \<noteq> None then Inr (copy data, clim)
            else if \<not> FLOAT16_SUPPORT then Inr (copy data, clim) else Inr (data, clim))
      else if name = ''float32''
      then (if clim \<noteq> None then Inr (copy data, clim)
            else if \<not> FLOAT32_SUPPORT then Inr (copy data, clim) else Inr (data, clim))
      else if contains name ''float'' then Inr (astype_float32 data, clim)
      else if startswith name ''int''
      then (if clim = None
            then (case int_of_str (drop 3 name) of
                    Inl e \<Rightarrow> Inl e
                  | Inr bits \<Rightarrow>
                      (let max = (2::int) ^ bits
                       in Inr (astype_float32 data,
                               Some [of_int ((- max) div 2), of_int (max div 2 - 1)])))
            else Inr (astype_float32 data, clim))
      else if startswith name ''uint''
      then (if clim = None
            then (case int_of_str (drop 4 name) of
                    Inl e \<Rightarrow> Inl e
                  | Inr bits \<Rightarrow>
                      (let max = (2::int) ^ bits
                       in Inr (astype_float32 data, Some [0, of_int (max div 2)])))
            else Inr (astype_float32 data, clim))
      else Inl (TextureError (''Could not convert data type '' @ name @ ''.'')))"





section \<open>Concrete inputs\<close>

text \<open>Arrays, buffers and textures on which the properties below are evaluated.\<close>

definition uint16 :: dtype where "uint16 = Scalar ''uint16'' 2"

text \<open>\<^verbatim>\<open>np.zeros(n, dtype=np.uint16)\<close>\<close>

definition index_array :: "nat \<Rightarrow> ndarray" where
  "index_array n = NDArray uint16 [n] [] None"

text \<open>
  \<^verbatim>\<open>ElementBuffer(np.zeros(50, np.uint16))\<close> after
  \<^verbatim>\<open>set_subdata(10, np.zeros(5, np.uint16))\<close>: the full write and one sub-write are queued.
\<close>

definition queued_buffer :: buffer where
  "queued_buffer =
     \<lparr>cls = ElementBuffer, target = GL_ELEMENT_ARRAY_BUFFER, handle = 0, need_update = True,
      nbytes = 100, need_resize = True,
      pending_data = [(index_array 50, 100, 0), (index_array 5, 10, 20)],
      offset = 0, dtype = uint16, vsize = 1, stride = 2, count = 50\<rparr>"

text \<open>\<^verbatim>\<open>ElementBuffer(np.zeros(0, np.uint16))\<close>\<close>

definition empty_index_buffer :: buffer where
  "empty_index_buffer =
     \<lparr>cls = ElementBuffer, target = GL_ELEMENT_ARRAY_BUFFER, handle = 0, need_update = True,
      nbytes = 0, need_resize = False,
      pending_data = [(index_array 0, 0, 0)],
      offset = 0, dtype = uint16, vsize = 1, stride = 2, count = 0\<rparr>"

text \<open>
  \<^verbatim>\<open>np.zeros(n, [('position', 'f4', 3), ('color', 'f4', 4)])\<close> and the
  \<^verbatim>\<open>VertexBuffer\<close> constructed from 100 such elements.
\<close>

definition vertex_dtype :: dtype where
  "vertex_dtype =
     Struct [(''position'', SubArray float32 [3], 0), (''color'', SubArray float32 [4], 12)] 28"

definition vertex_array :: "nat \<Rightarrow> ndarray" where
  "vertex_array n = NDArray vertex_dtype [n] [] None"

definition vertex_buffer :: buffer where
  "vertex_buffer =
     \<lparr>cls = VertexBuffer, target = GL_ARRAY_BUFFER, handle = 0, need_update = True,
      nbytes = 2800, need_resize = True,
      pending_data = [(vertex_array 100, 2800, 0)],
      offset = 0, dtype = vertex_dtype, vsize = 7, stride = 196, count = 100\<rparr>"

text \<open>The view \<^verbatim>\<open>buffer['color']\<close> on that buffer, stored at address 0.\<close>

definition color_view :: view where
  "color_view =
     \<lparr>cls = VertexBufferView, target = GL_ARRAY_BUFFER, handle = 0, need_update = False,
      nbytes = 0, need_resize = False, pending_data = [],
      offset = 12, dtype = float32, vsize = 4, stride = 196, count = 0, base_ref = 0\<rparr>"

text \<open>
  \<^verbatim>\<open>np.zeros((n, 3), np.float32)\<close> and the \<^verbatim>\<open>VertexBuffer\<close> constructed from 100 rows.
\<close>

definition point_array :: "nat \<Rightarrow> ndarray" where
  "point_array n = NDArray float32 [n, 3] [] None"

definition point_buffer :: buffer where
  "point_buffer =
     \<lparr>cls = VertexBuffer, target = GL_ARRAY_BUFFER, handle = 0, need_update = True,
      nbytes = 1200, need_resize = True,
      pending_data = [(point_array 100, 1200, 0)],
      offset = 0, dtype = float32, vsize = 3, stride = 12, count = 100\<rparr>"

text \<open>
  An RGBA image of 8 bit channels, and the 2D texture after \<^verbatim>\<open>set_data\<close> with a 64 by 64
  image.
\<close>

definition image_array :: "nat \<Rightarrow> nat \<Rightarrow> ndarray" where
  "image_array h w = NDArray uint8 [h, w, 4] [] None"

definition image_texture :: texture where
  "image_texture =
     \<lparr>tex_target = GL_TEXTURE_2D, tex_need_update = True,
      tex_pending_data = Some (Data (image_array 64 64), None, 0, None, None),
      texture_shape = Some [64, 64, 4], pending_subdata = []\<rparr>"

text \<open>
  A graphics library on which every texture is valid and whose state is the list of the
  pending writes handed to \<^verbatim>\<open>_process_pending_data\<close> so far.
\<close>

definition logging_env :: "pending list gl_env" where
  "logging_env =
     \<lparr>ext_available_3D = True, process_pending_data = (\<lambda>t p g. Inr (g @ [p])),
      glIsTexture = (\<lambda>g. True), reset_handle = (\<lambda>g. g), apply_params = (\<lambda>g. g)\<rparr>"


definition uint8_sample :: ndarray where
  "uint8_sample = NDArray uint8 [3] [0, 7, 255] None"

definition uint16_sample :: ndarray where
  "uint16_sample = NDArray uint16 [2] [5, 40000] None"

section \<open>Properties of the byte buffer and the typed buffer\<close>

lemma pending_data_set_nbytes: "pending_data (set_nbytes b n) = []"
  by (simp add: set_nbytes_def Let_def)

lemma pending_data_set_count: "pending_data (set_count b n) = []"
  by (simp add: set_count_def Let_def pending_data_set_nbytes)

lemma uploads_append: "uploads (xs @ ys) = uploads xs @ uploads ys"
  by (induction xs rule: uploads.induct) auto

lemma uploads_upload_pending:
  "uploads (snd (upload_pending tg q calls))
     = uploads calls @ map (\<lambda>(d, n, off). (off, n, d)) q"
  by (induction tg q calls rule: upload_pending.induct) (auto simp: uploads_append)

lemma fst_upload_pending: "fst (upload_pending tg q calls) = []"
  by (induction tg q calls rule: upload_pending.induct) auto

text \<open>A flush uploads exactly the queued writes, in order, and leaves the queue empty.\<close>

lemma uploads_Buffer_update:
  "uploads (snd (Buffer_update b)) = map (\<lambda>(d, n, off). (off, n, d)) (pending_data b)"
  by (simp add: Buffer_update_def Let_def split_beta uploads_upload_pending)

lemma pending_data_Buffer_update: "pending_data (fst (Buffer_update b)) = []"
  by (simp add: Buffer_update_def Let_def split_beta fst_upload_pending)

lemma set_data_pending:
  assumes "set_data b data = Inr b'"
  shows "pending_data b' = [(unwrap_array data, array_nbytes (unwrap_array data), 0)]"
  using assms
  by (auto simp: set_data_def Let_def Buffer_set_data_def pending_data_set_nbytes
           split: sum.splits if_splits prod.splits)

lemma unwrap_array_index: "unwrap_array (index_array n) = index_array n"
  by (simp add: unwrap_array.simps index_array_def uint16_def)

lemma unwrap_array_vertex: "unwrap_array (vertex_array n) = vertex_array n"
  by (simp add: unwrap_array.simps vertex_array_def vertex_dtype_def)

lemma unwrap_array_point: "unwrap_array (point_array n) = point_array n"
  by (simp add: unwrap_array.simps point_array_def float32_def)


text \<open>The concrete buffers are what the constructors build.\<close>

lemma queued_buffer_built:
  "\<exists>b0. DataBuffer_init ElementBuffer (ArgArray (index_array 50)) = Inr b0
        \<and> set_subdata b0 10 (index_array 5) = Inr queued_buffer"
  by (simp add: DataBuffer_init_def ElementBuffer_parse_array_def ElementBuffer_parse_dtype_def
      set_data_def index_array_def uint16_def asize_def new_buffer_def Buffer_set_data_def
      set_count_def set_nbytes_def array_nbytes_def check_data_type_def set_subdata_def
      unwrap_array.simps Buffer_set_subdata_def queued_buffer_def)

lemma parse_vertex_array:
  "VertexBuffer_parse_array (vertex_array n) = (vertex_dtype, 7, 196, int n)"
  by (simp add: VertexBuffer_parse_array_def unwrap_array_vertex VertexBuffer_parse_dtype_def)
     (simp add: vertex_array_def vertex_dtype_def float32_def asize_def)

lemma vertex_buffer_built:
  "DataBuffer_init VertexBuffer (ArgArray (vertex_array 100)) = Inr vertex_buffer"
  by (simp add: DataBuffer_init_def parse_vertex_array set_data_def unwrap_array_vertex
      new_buffer_def Buffer_set_data_def set_count_def set_nbytes_def check_data_type_def
      vertex_buffer_def)
     (simp add: vertex_array_def vertex_dtype_def float32_def array_nbytes_def asize_def)

lemma parse_point_array:
  "VertexBuffer_parse_array (point_array n) = (float32, 3, 12, int n)"
  by (simp add: VertexBuffer_parse_array_def unwrap_array_point VertexBuffer_parse_dtype_def)
     (simp add: point_array_def float32_def asize_def ndim_def)

lemma point_buffer_built:
  "DataBuffer_init VertexBuffer (ArgArray (point_array 100)) = Inr point_buffer"
  by (simp add: DataBuffer_init_def parse_point_array set_data_def unwrap_array_point
      new_buffer_def Buffer_set_data_def set_count_def set_nbytes_def check_data_type_def
      point_buffer_def)
     (simp add: point_array_def float32_def array_nbytes_def asize_def)

lemma color_view_built: "getitem (\<lambda>a. vertex_buffer) 0 (Name ''color'') = Inr color_view"
  by (simp add: vertex_buffer_def getitem_def getfield_def vertex_dtype_def
      VertexBufferView_init_def DataBuffer_init_def VertexBuffer_parse_dtype_def float32_def
      new_buffer_def check_data_type_def buffer.extend_def view.fields_def color_view_def)

subsection \<open>Resizing and the pending-write queue\<close>

text \<open>
  Claim C1. \<^verbatim>\<open>set_count\<close> leaves the pending-write queue empty, so the next flush
  uploads nothing; a \<^verbatim>\<open>set_data\<close> that is accepted leaves in the queue only its own
  full write at offset 0, and the next flush uploads that write and no other. Both hold
  for every new count and every array, in particular when the capacity changes: no write
  queued against the old capacity survives.
\<close>

theorem resize_discards_pending:
  "pending_data (set_count b n) = []
   \<and> uploads (snd (Buffer_update (set_count b n))) = []
   \<and> (\<forall>b'. set_data b data = Inr b' \<longrightarrow>
          pending_data b' = [(unwrap_array data, array_nbytes (unwrap_array data), 0)]
          \<and> uploads (snd (Buffer_update b'))
              = [(0, array_nbytes (unwrap_array data), unwrap_array data)])"
  by (auto simp: pending_data_set_count uploads_Buffer_update dest: set_data_pending)

theorem resize_discards_pending_witness:
  "pending_data (set_count queued_buffer 20) = []
   \<and> set_data queued_buffer (index_array 20)
       = Inr (queued_buffer\<lparr>count := 20, nbytes := 40,
                             pending_data := [(index_array 20, 40, 0)]\<rparr>)
   \<and> uploads (snd (Buffer_update (queued_buffer\<lparr>count := 20, nbytes := 40,
                             pending_data := [(index_array 20, 40, 0)]\<rparr>)))
       = [(0, 40, index_array 20)]"
proof -
  have s: "set_data queued_buffer (index_array 20)
       = Inr (queued_buffer\<lparr>count := 20, nbytes := 40,
                             pending_data := [(index_array 20, 40, 0)]\<rparr>)"
    by (simp add: set_data_def ElementBuffer_parse_array_def ElementBuffer_parse_dtype_def
        queued_buffer_def index_array_def uint16_def unwrap_array.simps asize_def
        Buffer_set_data_def set_count_def set_nbytes_def array_nbytes_def)
  have a: "array_nbytes (index_array 20) = 40"
    by (simp add: array_nbytes_def asize_def index_array_def uint16_def)
  from resize_discards_pending [of queued_buffer 20 "index_array 20"] s a
  show ?thesis by (simp add: unwrap_array_index)
qed

subsection \<open>Capacity, count and stride\<close>

text \<open>
  \<^verbatim>\<open>set_count\<close> sets the capacity to count times stride, and \<^verbatim>\<open>set_subdata\<close> changes
  none of the three.
\<close>

lemma set_count_capacity:
  "nbytes (set_count b n) = count (set_count b n) * stride (set_count b n)"
  by (simp add: set_count_def set_nbytes_def Let_def)

lemma set_subdata_keeps_capacity:
  assumes "set_subdata b off data = Inr b'"
  shows "nbytes b' = nbytes b \<and> count b' = count b \<and> stride b' = stride b"
  using assms
  by (auto simp: set_subdata_def Buffer_set_subdata_def Let_def
           split: sum.splits prod.splits if_splits)

text \<open>
  No array is its own \<^verbatim>\<open>base\<close>, so \<^verbatim>\<open>VertexBuffer._parse_array\<close> always returns the
  item size of the dtype times the vector size as the stride.
\<close>

lemma size_base: "base a = Some b \<Longrightarrow> size b < size a"
  by (cases a) simp

lemma array_not_own_base: "base a \<noteq> Some a"
  using size_base [of a a] by auto

lemma VertexBuffer_stride:
  assumes "VertexBuffer_parse_array a = (dt, vs, st, cnt)"
  shows "st = int (itemsize dt) * vs"
  using assms
  by (auto simp: VertexBuffer_parse_array_def Let_def array_not_own_base
           split: prod.splits if_splits)

text \<open>
  Claim C2, evaluated on the code. The constructor of \<^verbatim>\<open>VertexBuffer\<close> on a structured
  array of 100 elements with the fields position (3 floats) and color (4 floats) ends
  with a capacity of 2800 bytes, while count times stride is 100 * 196 = 19600:
  \<^verbatim>\<open>_parse_array\<close> replaces the stride by item size times vector size for every array,
  because an array is never its own \<^verbatim>\<open>base\<close>, and \<^verbatim>\<open>Buffer.set_data\<close> then sets the
  capacity to the byte size of the array.
\<close>

theorem structured_buffer_capacity:
  "DataBuffer_init VertexBuffer (ArgArray (vertex_array 100)) = Inr vertex_buffer
   \<and> nbytes vertex_buffer = 2800
   \<and> count vertex_buffer * stride vertex_buffer = 19600"
  by (simp add: vertex_buffer_built) (simp add: vertex_buffer_def)

text \<open>
  Claim C5, evaluated on the code. The same constructor call gives vector size 7 and
  count 100, and indexing by \<^verbatim>\<open>'color'\<close> gives a view at byte offset 12 on the buffer;
  the stride it records is 196 (28 * 7), not the item size 28.
\<close>

theorem structured_buffer_scenario:
  "DataBuffer_init VertexBuffer (ArgArray (vertex_array 100)) = Inr vertex_buffer
   \<and> vsize vertex_buffer = 7 \<and> stride vertex_buffer = 196 \<and> count vertex_buffer = 100
   \<and> itemsize (dtype vertex_buffer) = 28
   \<and> getitem (\<lambda>a. vertex_buffer) 0 (Name ''color'') = Inr color_view
   \<and> offset color_view = 12 \<and> base_ref color_view = 0"
  by (simp add: vertex_buffer_built color_view_built)
     (simp add: vertex_buffer_def color_view_def vertex_dtype_def)

subsection \<open>Bounds of \<^verbatim>\<open>set_subdata\<close>\<close>

lemma parse_array_stride_nonneg:
  assumes "parse_array c a = Inr (dt, vs, st, cnt)"
  shows "0 \<le> st"
proof (cases c)
  case ElementBuffer
  with assms show ?thesis
    by (auto simp: ElementBuffer_parse_array_def ElementBuffer_parse_dtype_def
             split: if_splits sum.splits)
next
  case VertexBuffer
  with assms show ?thesis
    by (auto simp: VertexBuffer_parse_array_def VertexBuffer_parse_dtype_def Let_def
             split: if_splits prod.splits)
next
  case VertexBufferView
  with assms show ?thesis
    by (auto simp: VertexBuffer_parse_array_def VertexBuffer_parse_dtype_def Let_def
             split: if_splits prod.splits)
qed

text \<open>
  Claim C3 as stated fails on a buffer of capacity 0: the empty write at offset 0 into
  the index buffer built from an empty array is within the element bounds, and
  \<^verbatim>\<open>Buffer.set_subdata\<close> rejects it because no space is allocated.
\<close>

theorem empty_buffer_rejects_empty_write:
  "DataBuffer_init ElementBuffer (ArgArray (index_array 0)) = Inr empty_index_buffer
   \<and> parse_array (cls empty_index_buffer) (unwrap_array (index_array 0))
       = Inr (dtype empty_index_buffer, vsize empty_index_buffer, stride empty_index_buffer, 0)
   \<and> \<not> ((0::int) < 0 \<or> 0 + 0 > count empty_index_buffer)
   \<and> set_subdata empty_index_buffer 0 (index_array 0)
       = Inl (ValueError ''Cannot set subdata if there is no space allocated.'')"
  by (simp add: DataBuffer_init_def ElementBuffer_parse_array_def ElementBuffer_parse_dtype_def
      set_data_def index_array_def uint16_def asize_def new_buffer_def Buffer_set_data_def
      set_count_def set_nbytes_def array_nbytes_def check_data_type_def set_subdata_def
      unwrap_array.simps Buffer_set_subdata_def empty_index_buffer_def)

text \<open>
  Claim C3, amended. For a buffer whose capacity is not 0 and equals count times stride,
  and an array whose inferred dtype, vector size and stride match the buffer's and whose
  byte size is its element count times the stride: \<^verbatim>\<open>set_subdata\<close> raises exactly when
  the offset is negative or offset plus the array's element count exceeds the buffer's
  count, and otherwise appends one pending write at byte offset offset times stride. An
  exception leaves the buffer as it was.
\<close>

theorem set_subdata_bounds:
  assumes "nbytes b \<noteq> 0" and "nbytes b = count b * stride b"
    and "parse_array (cls b) (unwrap_array data) = Inr (dtype b, vsize b, stride b, cnt)"
    and "array_nbytes (unwrap_array data) = cnt * stride b"
  shows "(if off < 0 \<or> off + cnt > count b
          then \<exists>e. set_subdata b off data = Inl e
          else set_subdata b off data
               = Inr (b\<lparr>pending_data := pending_data b
                          @ [(unwrap_array data, array_nbytes (unwrap_array data),
                              off * stride b)],
                        need_update := True\<rparr>))"
proof (cases "off < 0 \<or> off + cnt > count b")
  case True
  then show ?thesis using assms(3) by (auto simp: set_subdata_def Let_def)
next
  case False
  have st: "0 \<le> stride b" using assms(3) by (rule parse_array_stride_nonneg)
  from False have "off + cnt \<le> count b" by simp
  then have "(off + cnt) * stride b \<le> count b * stride b"
    using st by (rule mult_right_mono)
  then have "off * stride b + array_nbytes (unwrap_array data) \<le> nbytes b"
    using assms(2,4) by (simp add: algebra_simps)
  then show ?thesis
    using False assms(1,3) by (simp add: set_subdata_def Let_def Buffer_set_subdata_def)
qed

theorem set_subdata_bounds_witness:
  "set_subdata point_buffer 90 (point_array 10)
     = Inr (point_buffer\<lparr>pending_data :=
              [(point_array 100, 1200, 0), (point_array 10, 120, 1080)]\<rparr>)
   \<and> (\<exists>e. set_subdata point_buffer 95 (point_array 10) = Inl e)"
proof -
  have h1: "nbytes point_buffer \<noteq> 0" by (simp add: point_buffer_def)
  have h2: "nbytes point_buffer = count point_buffer * stride point_buffer"
    by (simp add: point_buffer_def)
  have h3: "parse_array (cls point_buffer) (unwrap_array (point_array 10))
      = Inr (dtype point_buffer, vsize point_buffer, stride point_buffer, 10)"
    by (simp add: unwrap_array_point parse_point_array)
       (simp add: point_buffer_def parse_point_array)
  have h4: "array_nbytes (unwrap_array (point_array 10)) = 10 * stride point_buffer"
    by (simp add: unwrap_array_point)
       (simp add: point_buffer_def point_array_def array_nbytes_def asize_def float32_def)
  have a: "array_nbytes (point_array 10) = 120"
    by (simp add: point_array_def array_nbytes_def asize_def float32_def)
  have c: "count point_buffer = 100" "stride point_buffer = 12"
    "pending_data point_buffer = [(point_array 100, 1200, 0)]" "need_update point_buffer"
    by (simp_all add: point_buffer_def)
  from set_subdata_bounds [OF h1 h2 h3 h4, of 90] set_subdata_bounds [OF h1 h2 h3 h4, of 95]
  show ?thesis by (simp add: unwrap_array_point a c)
qed

subsection \<open>Allowed element types\<close>







subsection \<open>Views\<close>

lemma init_dtype_nbytes:
  assumes "DataBuffer_init c (ArgDtype d) = Inr b"
  shows "nbytes b = 0"
  using assms
  by (auto simp: DataBuffer_init_def new_buffer_def split: sum.splits prod.splits option.splits)

lemma getitem_view:
  assumes "getitem h a k = Inr v"
  shows "nbytes v = 0 \<and> base_ref v = a"
  using assms
  by (auto simp: getitem_def VertexBufferView_init_def buffer.extend_def view.fields_def
           dest!: init_dtype_nbytes split: key.splits sum.splits prod.splits)

lemma view_set_count_fails: "\<exists>e. VertexBufferView_set_count v args = Inl e"
  by (simp add: VertexBufferView_set_count_def)

lemma view_set_data_fails: "\<exists>e. view_set_data h v d = Inl e"
  by (simp add: view_set_data_def Let_def VertexBufferView_set_count_def split: prod.splits)

lemma view_set_subdata_fails:
  assumes "nbytes v = 0"
  shows "\<exists>e. view_set_subdata h v off d = Inl e"
  using assms
  by (simp add: view_set_subdata_def Let_def Buffer_set_subdata_def view_stride_def
      view_count_def split: prod.splits)

text \<open>
  Claim C7. Let \<open>v0\<close> be the view that indexing the buffer at address \<open>a\<close> by a field name
  returns, and \<open>v\<close> that view with any values in the attributes its properties cache. In
  every later store \<open>h'\<close>, whatever has happened to the base buffer, the properties
  stride, count and handle of the view return the current attributes of the base; and
  \<^verbatim>\<open>set_count\<close>, \<^verbatim>\<open>set_data\<close> and \<^verbatim>\<open>set_subdata\<close> on the view raise for all arguments.
\<close>

theorem view_reads_through:
  assumes "getitem h a k = Inr v0" and "v = v0\<lparr>handle := x, stride := y, count := z\<rparr>"
  shows "fst (view_stride h' v) = stride (h' a)
       \<and> fst (view_count h' v) = count (h' a)
       \<and> fst (view_handle h' v) = handle (h' a)
       \<and> (\<exists>e. VertexBufferView_set_count v args = Inl e)
       \<and> (\<exists>e. view_set_data h' v d = Inl e)
       \<and> (\<exists>e. view_set_subdata h' v off d = Inl e)"
proof -
  from assms have v: "nbytes v = 0" "base_ref v = a" by (simp_all add: getitem_view)
  show ?thesis
    using v view_set_data_fails [of h' v d] view_set_subdata_fails [OF v(1), of h' off d]
    by (simp add: view_stride_def view_count_def view_handle_def Let_def view_set_count_fails)
qed

theorem view_reads_through_witness:
  "getitem (\<lambda>a. vertex_buffer) 0 (Name ''color'') = Inr color_view
   \<and> fst (view_count (\<lambda>a. set_count (vertex_buffer\<lparr>handle := 7\<rparr>) 50) color_view) = 50
   \<and> fst (view_stride (\<lambda>a. set_count (vertex_buffer\<lparr>handle := 7\<rparr>) 50) color_view) = 196
   \<and> fst (view_handle (\<lambda>a. set_count (vertex_buffer\<lparr>handle := 7\<rparr>) 50) color_view) = 7
   \<and> (\<exists>e. VertexBufferView_set_count color_view [] = Inl e)
   \<and> (\<exists>e. view_set_data (\<lambda>a. vertex_buffer) color_view (point_array 100) = Inl e)
   \<and> (\<exists>e. view_set_subdata (\<lambda>a. vertex_buffer) color_view 0 (point_array 1) = Inl e)"
proof -
  have c: "count (set_count (vertex_buffer\<lparr>handle := 7\<rparr>) 50) = 50"
    "stride (set_count (vertex_buffer\<lparr>handle := 7\<rparr>) 50) = 196"
    "handle (set_count (vertex_buffer\<lparr>handle := 7\<rparr>) 50) = 7"
    by (simp_all add: set_count_def set_nbytes_def Let_def vertex_buffer_def)
  have e: "color_view = color_view\<lparr>handle := 0, stride := 196, count := 0\<rparr>"
    by (simp add: color_view_def)
  from view_reads_through [OF color_view_built e,
         of "\<lambda>a. set_count (vertex_buffer\<lparr>handle := 7\<rparr>) 50" "[]"]
       view_reads_through [OF color_view_built e, of "\<lambda>a. vertex_buffer" "[]" "point_array 100" 0]
       view_reads_through [OF color_view_built e, of "\<lambda>a. vertex_buffer" "[]" "point_array 1" 0]
  show ?thesis by (simp add: color_view_built c)
qed

section \<open>Properties of the texture\<close>

subsection \<open>Sub-region writes\<close>

text \<open>A full write or a storage request that is accepted gives the texture a shape.\<close>

lemma set_data_establishes_shape:
  assumes "Texture_set_data t data level format clim = Inr t'"
  shows "texture_shape t' = Some (map int (shape data))"
  using assms by (auto simp: Texture_set_data_def Let_def split: if_splits)

lemma set_storage_establishes_shape:
  assumes "Texture_set_storage t shp level format = Inr t'"
  shows "texture_shape t' \<noteq> None"
  using assms by (auto simp: Texture_set_storage_def Let_def split: if_splits)

text \<open>
  Claim C4 as stated fails: \<^verbatim>\<open>set_subdata\<close> compares neither the offset nor the extent
  of the data with the shape of the texture. On a 2D texture holding a 64 by 64 RGBA
  image, a 10 by 10 block at offset (60, 60) is accepted and queued, and the next flush
  hands it to \<^verbatim>\<open>_process_pending_data\<close> after the full write.
\<close>

theorem texture_subdata_out_of_bounds:
  "Texture_set_data (new_texture GL_TEXTURE_2D) (image_array 64 64) 0 None None
     = Inr image_texture
   \<and> Texture_set_subdata image_texture [60, 60] (image_array 10 10) 0 None None
       = Inr (image_texture\<lparr>pending_subdata :=
                [(Data (image_array 10 10), Some [60, 60], 0, None, None)]\<rparr>)
   \<and> Texture_update logging_env (image_texture\<lparr>pending_subdata :=
                [(Data (image_array 10 10), Some [60, 60], 0, None, None)]\<rparr>) []
       = Inr (image_texture\<lparr>tex_pending_data := None\<rparr>,
              [(Data (image_array 64 64), None, 0, None, None),
               (Data (image_array 10 10), Some [60, 60], 0, None, None)])"
  by (simp add: Texture_set_data_def Texture_set_subdata_def new_texture_def image_array_def
      image_texture_def format_ok_def clim_ok_def Texture_update_def update_subdata_def
      logging_env_def)

text \<open>
  Claim C4, amended. \<^verbatim>\<open>set_subdata\<close> raises when the texture has no shape yet, as a
  newly constructed texture has none. Once a shape is set, a call whose data has the rank
  of the target or one more, whose offset has the rank of the target, and whose level,
  format and limits are valid is accepted whatever the offset and the extent of the data:
  it appends one pending sub-region write.
\<close>

theorem texture_set_subdata_checks:
  "Texture_set_subdata (new_texture tg) off data level format clim
     = Inl (RuntimeError ''Cannot set subdata if there is not data or storage yet.'')
   \<and> (texture_shape t = None \<longrightarrow>
        Texture_set_subdata t off data level format clim
          = Inl (RuntimeError ''Cannot set subdata if there is not data or storage yet.''))
   \<and> (texture_shape t \<noteq> None
        \<and> (ndim data = target_ndim (tex_target t) \<or> ndim data = target_ndim (tex_target t) + 1)
        \<and> length off = target_ndim (tex_target t)
        \<and> 0 \<le> level \<and> format_ok format \<and> clim_ok clim \<longrightarrow>
        Texture_set_subdata t off data level format clim
          = Inr (t\<lparr>pending_subdata :=
                     pending_subdata t @ [(Data data, Some off, level, format, clim)],
                   tex_need_update := True\<rparr>))"
  by (simp add: Texture_set_subdata_def new_texture_def Let_def ndim_def)

theorem texture_set_subdata_checks_witness:
  "Texture_set_subdata (new_texture GL_TEXTURE_2D) [0, 0] (image_array 10 10) 0 None None
     = Inl (RuntimeError ''Cannot set subdata if there is not data or storage yet.'')
   \<and> Texture_set_subdata image_texture [20, 20] (image_array 10 10) 0 None None
       = Inr (image_texture\<lparr>pending_subdata :=
                [(Data (image_array 10 10), Some [20, 20], 0, None, None)]\<rparr>)"
proof -
  have h: "texture_shape image_texture \<noteq> None
        \<and> (ndim (image_array 10 10) = target_ndim (tex_target image_texture)
           \<or> ndim (image_array 10 10) = target_ndim (tex_target image_texture) + 1)
        \<and> length [20, 20 :: int] = target_ndim (tex_target image_texture)
        \<and> 0 \<le> (0::int) \<and> format_ok None \<and> clim_ok None"
    by (simp add: image_texture_def image_array_def ndim_def format_ok_def clim_ok_def)
  from texture_set_subdata_checks
         [of GL_TEXTURE_2D "[0, 0]" "image_array 10 10" 0 None None image_texture]
       texture_set_subdata_checks
         [of GL_TEXTURE_2D "[20, 20]" "image_array 10 10" 0 None None image_texture] h
  show ?thesis by (simp add: image_texture_def ndim_def image_array_def format_ok_def clim_ok_def)
qed

subsection \<open>Full writes\<close>

text \<open>
  Claim C10. After a \<^verbatim>\<open>set_data\<close> that is accepted the queue of sub-region writes is
  empty and the pending full write is the new one; the resulting texture is the same
  whatever the queue held before. The next flush therefore hands to
  \<^verbatim>\<open>_process_pending_data\<close> the new full write and nothing else, on every graphics
  library.
\<close>

theorem texture_set_data_clears_subdata:
  assumes "Texture_set_data t data level format clim = Inr t'"
  shows "pending_subdata t' = []
       \<and> tex_pending_data t' = Some (Data data, None, level, format, clim)
       \<and> Texture_set_data (t\<lparr>pending_subdata := q\<rparr>) data level format clim = Inr t'
       \<and> Texture_update env t' g =
           (if tex_target t' = GL_TEXTURE_3D \<and> \<not> ext_available_3D env
            then Inl (TextureError ''3D Texture not available.'')
            else case process_pending_data env (t'\<lparr>tex_pending_data := None\<rparr>)
                        (Data data, None, level, format, clim) g of
                   Inl e \<Rightarrow> Inl e
                 | Inr g1 \<Rightarrow>
                     Inr (t'\<lparr>tex_pending_data := None\<rparr>,
                          if glIsTexture env g1 then apply_params env g1
                          else reset_handle env g1))"
  using assms
  by (auto simp: Texture_set_data_def Let_def Texture_update_def update_subdata_def
           split: if_splits sum.splits)

theorem texture_set_data_clears_subdata_witness:
  "Texture_set_data (image_texture\<lparr>pending_subdata :=
        [(Data (image_array 10 10), Some [20, 20], 0, None, None)]\<rparr>)
      (image_array 32 32) 0 None None
     = Inr (image_texture\<lparr>tex_pending_data :=
                             Some (Data (image_array 32 32), None, 0, None, None),
                           texture_shape := Some [32, 32, 4]\<rparr>)
   \<and> Texture_update logging_env
        (image_texture\<lparr>tex_pending_data :=
                             Some (Data (image_array 32 32), None, 0, None, None),
                           texture_shape := Some [32, 32, 4]\<rparr>) []
     = Inr (image_texture\<lparr>tex_pending_data := None, texture_shape := Some [32, 32, 4]\<rparr>,
            [(Data (image_array 32 32), None, 0, None, None)])"
proof -
  have s: "Texture_set_data (image_texture\<lparr>pending_subdata :=
        [(Data (image_array 10 10), Some [20, 20], 0, None, None)]\<rparr>)
      (image_array 32 32) 0 None None
     = Inr (image_texture\<lparr>tex_pending_data :=
                             Some (Data (image_array 32 32), None, 0, None, None),
                           texture_shape := Some [32, 32, 4]\<rparr>)"
    by (simp add: Texture_set_data_def image_array_def image_texture_def format_ok_def
        clim_ok_def)
  from texture_set_data_clears_subdata [OF s, of "[]" logging_env "[]"]
  show ?thesis by (simp add: s) (simp add: logging_env_def image_texture_def)
qed

section \<open>Properties of \<^verbatim>\<open>convert_data\<close>\<close>


lemma int_of_str_16: "int_of_str ''16'' = Inr 16"
  by (simp add: int_of_str_def digit_val_def digits_def)

lemma int_of_str_32: "int_of_str ''32'' = Inr 32"
  by (simp add: int_of_str_def digit_val_def digits_def)

lemma int_of_str_64: "int_of_str ''64'' = Inr 64"
  by (simp add: int_of_str_def digit_val_def digits_def)










text \<open>
  Claim C9 as stated fails for the unsigned type uint8: without limits the array is
  neither converted to floating point nor given default limits.
\<close>

theorem uint8_no_default_clim:
  "determine_clim True True uint8_sample None = Inr (uint8_sample, None)
   \<and> adtype uint8_sample = uint8"
  by (simp add: determine_clim_def uint8_sample_def uint8_def)

text \<open>
  Claim C9, amended. For an array of type uint16, uint32 or uint64 without limits,
  \<^verbatim>\<open>convert_data\<close> converts the array to float32 and takes the limits 0 and
  2 ^ (bits - 1), half the range of the type.
\<close>

theorem unsigned_default_clim:
  "(dtype_name (adtype data) = ''uint16'' \<longrightarrow>
      determine_clim f32 f16 data None = Inr (astype_float32 data, Some [0, 2 ^ 15]))
   \<and> (dtype_name (adtype data) = ''uint32'' \<longrightarrow>
      determine_clim f32 f16 data None = Inr (astype_float32 data, Some [0, 2 ^ 31]))
   \<and> (dtype_name (adtype data) = ''uint64'' \<longrightarrow>
      determine_clim f32 f16 data None = Inr (astype_float32 data, Some [0, 2 ^ 63]))"
  by (simp add: determine_clim_def startswith_def int_of_str_16 int_of_str_32 int_of_str_64)

theorem unsigned_default_clim_witness:
  "determine_clim True True uint16_sample None
     = Inr (NDArray float32 [2] [5, 40000] None, Some [0, 32768])"
proof -
  have n: "dtype_name (adtype uint16_sample) = ''uint16''"
    by (simp add: uint16_sample_def uint16_def)
  from unsigned_default_clim [of uint16_sample True True] n
  show ?thesis by (simp add: astype_float32_def uint16_sample_def)
qed

end
